theory Spec2Isabelle
  imports Main
begin

section \<open>Data model of app.py\<close>

text \<open>
  The two SQLAlchemy models. The primary key \<open>id\<close> of each class is named \<open>u_id\<close>
  and \<open>c_id\<close> here, since \<open>id\<close> is the identity function of HOL. A nullable column
  that the code leaves unset is an \<open>option\<close>; the timestamp is a reading of the clock.
\<close>

record user =
  u_id :: nat
  username :: string
  email :: string
  password_hash :: string
  role :: string

record consultation =
  c_id :: nat
  body :: string
  timestamp :: nat
  user_id :: "nat option"
  responder_id :: "nat option"
  response :: "string option"

text \<open>The relational store: one list of rows per table, in storage order.\<close>

record db =
  user_rows :: "user list"
  consultation_rows :: "consultation list"

text \<open>
  The library functions whose results the code stores or branches on: werkzeug's
  \<open>generate_password_hash\<close> and \<open>check_password_hash\<close>, the address check behind the
  \<open>Email()\<close> validator of wtforms, and Python's \<open>str.strip\<close>, which the \<open>DataRequired\<close>
  validator applies to the data of a field. They are parameters: what is proved holds
  for every such library, so for Python's own \<open>str.strip\<close> with all of Unicode's
  whitespace.
\<close>

record lib =
  generate_password_hash :: "string \<Rightarrow> string"
  check_password_hash :: "string \<Rightarrow> string \<Rightarrow> bool"
  Email_ok :: "string \<Rightarrow> bool"
  str_strip :: "string \<Rightarrow> string"

section \<open>Requests and results\<close>

datatype http_method = GET | POST

text \<open>
  What a view function reads from the request: the HTTP method, the user id held by the
  session cookie, the requested path, the query argument \<open>next\<close>, the posted form
  (field name and value, as \<open>request.form\<close>), whether the CSRF token of a FlaskForm is
  accepted, and the clock.
\<close>

record request =
  request_method :: http_method
  session :: "nat option"
  path :: string
  args_next :: "string option"
  form :: "(string \<times> string) list"
  csrf_ok :: bool
  utcnow :: nat

datatype endpoint =
  Index | Login | Logout | Register | Profile | Consultation_request | Consultations | Chat

text \<open>\<open>Url_for e n\<close> is \<open>url_for(e)\<close>, with the query argument \<open>next = n\<close> when given.\<close>

datatype target = Url_for endpoint "string option" | Url string

type_synonym form_errors = "(string \<times> string list) list"

datatype page =
    Redirect target
  | Index_html
  | Login_html form_errors
  | Register_html form_errors
  | Profile_html user
  | Consultation_request_html form_errors
  | Consultations_html "consultation list"
  | Chat_html consultation

datatype error = NotFound | MethodNotAllowed | NameError string

record result =
  db_of :: db
  session_of :: "nat option"
  flashes :: "string list"
  reply :: "error + page"

definition respond :: "db \<Rightarrow> request \<Rightarrow> string list \<Rightarrow> error + page \<Rightarrow> result" where
  "respond d rq fl r = \<lparr>db_of = d, session_of = session rq, flashes = fl, reply = r\<rparr>"

section \<open>Sessions: flask_login\<close>

definition load_user :: "db \<Rightarrow> nat \<Rightarrow> user option" where
  "load_user d i = find (\<lambda>u. u_id u = i) (user_rows d)"

definition current_user :: "db \<Rightarrow> request \<Rightarrow> user option" where
  "current_user d rq = (case session rq of None \<Rightarrow> None | Some i \<Rightarrow> load_user d i)"

text \<open>
  \<open>@login_required\<close>: without an authenticated user the view is not run; the
  request is redirected to \<open>login_view\<close> with the requested path as \<open>next\<close>.
\<close>

definition unauthorized :: "db \<Rightarrow> request \<Rightarrow> result" where
  "unauthorized d rq =
     respond d rq [''Please log in to access this page.'']
       (Inr (Redirect (Url_for Login (Some (path rq)))))"

definition login_required :: "db \<Rightarrow> request \<Rightarrow> (user \<Rightarrow> result) \<Rightarrow> result" where
  "login_required d rq view =
     (case current_user d rq of None \<Rightarrow> unauthorized d rq | Some u \<Rightarrow> view u)"

section \<open>Forms: wtforms and flask_wtf\<close>

text \<open>
  The data of a text field is the posted value of that name, and the empty string
  when the form holds none (a blank field either way).
\<close>

definition field_data :: "request \<Rightarrow> string \<Rightarrow> string" where
  "field_data rq name = (case map_of (form rq) name of None \<Rightarrow> [] | Some s \<Rightarrow> s)"

text \<open>
  A validator returns (\<open>Pass\<close>), raises ValidationError (\<open>Fail\<close>: the message is
  recorded and the chain goes on) or raises StopValidation (\<open>Stop\<close>: the message is
  recorded and the chain ends).
\<close>

datatype verdict = Pass | Fail string | Stop string

fun run_validation_chain :: "(string \<Rightarrow> verdict) list \<Rightarrow> string \<Rightarrow> string list" where
  "run_validation_chain [] data = []"
| "run_validation_chain (v # vs) data =
     (case v data of
        Pass \<Rightarrow> run_validation_chain vs data
      | Fail m \<Rightarrow> m # run_validation_chain vs data
      | Stop m \<Rightarrow> [m])"

text \<open>
  \<open>DataRequired\<close> passes when \<open>field.data and field.data.strip()\<close> is true: the data is
  not empty and what \<open>str.strip\<close> leaves of it is not empty.
\<close>

definition DataRequired :: "lib \<Rightarrow> string \<Rightarrow> verdict" where
  "DataRequired L data =
     (if data \<noteq> [] \<and> str_strip L data \<noteq> [] then Pass
      else Stop ''This field is required.'')"

definition Email :: "lib \<Rightarrow> string \<Rightarrow> verdict" where
  "Email L data = (if Email_ok L data then Pass else Fail ''Invalid email address.'')"

definition EqualTo :: "request \<Rightarrow> string \<Rightarrow> string \<Rightarrow> verdict" where
  "EqualTo rq fieldname data =
     (if data \<noteq> field_data rq fieldname
      then Fail (''Field must be equal to '' @ fieldname @ ''.'') else Pass)"

text \<open>The two inline validators of RegistrationForm.\<close>

definition validate_username :: "db \<Rightarrow> string \<Rightarrow> verdict" where
  "validate_username d data =
     (case find (\<lambda>u. username u = data) (user_rows d) of
        None \<Rightarrow> Pass
      | Some user \<Rightarrow> Fail ''Please use a different username.'')"

definition validate_email :: "db \<Rightarrow> string \<Rightarrow> verdict" where
  "validate_email d data =
     (case find (\<lambda>u. email u = data) (user_rows d) of
        None \<Rightarrow> Pass
      | Some user \<Rightarrow> Fail ''Please use a different email address.'')"

text \<open>
  \<open>form.validate()\<close>: every field runs its chain (its validators, then its inline
  validator), and \<open>form.errors\<close> keeps the fields that recorded a message.
\<close>

definition csrf_token :: "request \<Rightarrow> string list" where
  "csrf_token rq = (if csrf_ok rq then [] else [''The CSRF token is missing.''])"

definition form_errors_of :: "(string \<times> string list) list \<Rightarrow> form_errors" where
  "form_errors_of fs = filter (\<lambda>(name, msgs). msgs \<noteq> []) fs"

definition LoginForm :: "lib \<Rightarrow> request \<Rightarrow> form_errors" where
  "LoginForm L rq = form_errors_of
     [(''username'', run_validation_chain [DataRequired L] (field_data rq ''username'')),
      (''password'', run_validation_chain [DataRequired L] (field_data rq ''password'')),
      (''csrf_token'', csrf_token rq)]"

definition RegistrationForm :: "lib \<Rightarrow> db \<Rightarrow> request \<Rightarrow> form_errors" where
  "RegistrationForm L d rq = form_errors_of
     [(''username'',
         run_validation_chain [DataRequired L, validate_username d] (field_data rq ''username'')),
      (''email'',
         run_validation_chain [DataRequired L, Email L, validate_email d] (field_data rq ''email'')),
      (''password'', run_validation_chain [DataRequired L] (field_data rq ''password'')),
      (''password2'',
         run_validation_chain [DataRequired L, EqualTo rq ''password''] (field_data rq ''password2'')),
      (''role'', run_validation_chain [DataRequired L] (field_data rq ''role'')),
      (''csrf_token'', csrf_token rq)]"

definition ConsultationForm :: "lib \<Rightarrow> request \<Rightarrow> form_errors" where
  "ConsultationForm L rq = form_errors_of
     [(''body'', run_validation_chain [DataRequired L] (field_data rq ''body'')),
      (''csrf_token'', csrf_token rq)]"

text \<open>
  \<open>form.validate_on_submit()\<close>: the form is validated only when it was submitted;
  \<open>shown_errors\<close> is what \<open>form.errors\<close> then holds for the template.
\<close>

definition validate_on_submit :: "request \<Rightarrow> form_errors \<Rightarrow> bool" where
  "validate_on_submit rq errs = (request_method rq = POST \<and> errs = [])"

definition shown_errors :: "request \<Rightarrow> form_errors \<Rightarrow> form_errors" where
  "shown_errors rq errs = (if request_method rq = POST then errs else [])"

section \<open>The store\<close>

text \<open>The primary key of a new row: one more than the largest key of the table.\<close>

definition next_id :: "nat list \<Rightarrow> nat" where
  "next_id ks = Suc (fold max ks 0)"

definition get_consultation :: "db \<Rightarrow> nat \<Rightarrow> consultation option" where
  "get_consultation d k = find (\<lambda>c. c_id c = k) (consultation_rows d)"

text \<open>\<open>db.session.commit()\<close> of a changed row: the row with that primary key is replaced.\<close>

definition commit_consultation :: "db \<Rightarrow> consultation \<Rightarrow> db" where
  "commit_consultation d c =
     d\<lparr>consultation_rows := map (\<lambda>x. if c_id x = c_id c then c else x) (consultation_rows d)\<rparr>"

section \<open>The view functions\<close>

definition index :: "db \<Rightarrow> request \<Rightarrow> result" where
  "index d rq = login_required d rq (\<lambda>u. respond d rq [] (Inr Index_html))"

text \<open>
  app.py calls \<open>url_parse\<close> in \<open>login\<close> but neither imports nor defines the name: the
  call raises NameError. (The function meant is werkzeug's, whose \<open>netloc\<close> is the host
  part of the URL.)
\<close>

definition url_parse :: "string \<Rightarrow> error + string" where
  "url_parse url = Inl (NameError ''url_parse'')"

text \<open>
  The target of the redirect after \<open>login_user\<close>. In
  \<open>not next_page or url_parse(next_page).netloc != ''\<close> the right operand is evaluated
  only when \<open>next\<close> is given and not empty.
\<close>

definition next_target :: "string option \<Rightarrow> error + target" where
  "next_target nxt =
     (case nxt of
        None \<Rightarrow> Inr (Url_for Index None)
      | Some next_page \<Rightarrow>
          if next_page = [] then Inr (Url_for Index None)
          else (case url_parse next_page of
                  Inl e \<Rightarrow> Inl e
                | Inr netloc \<Rightarrow>
                    if netloc \<noteq> [] then Inr (Url_for Index None) else Inr (Url next_page)))"

definition login :: "lib \<Rightarrow> db \<Rightarrow> request \<Rightarrow> result" where
  "login L d rq =
     (if current_user d rq \<noteq> None then respond d rq [] (Inr (Redirect (Url_for Index None)))
      else if validate_on_submit rq (LoginForm L rq) then
        (case find (\<lambda>u. username u = field_data rq ''username'') (user_rows d) of
           None \<Rightarrow>
             respond d rq [''Invalid username or password''] (Inr (Redirect (Url_for Login None)))
         | Some user \<Rightarrow>
             if \<not> check_password_hash L (password_hash user) (field_data rq ''password'')
             then respond d rq [''Invalid username or password'']
                    (Inr (Redirect (Url_for Login None)))
             else
               \<lparr>db_of = d, session_of = Some (u_id user), flashes = [],
                reply = (case next_target (args_next rq) of
                           Inl e \<Rightarrow> Inl e
                         | Inr next_page \<Rightarrow> Inr (Redirect next_page))\<rparr>)
      else respond d rq [] (Inr (Login_html (shown_errors rq (LoginForm L rq)))))"

definition logout :: "db \<Rightarrow> request \<Rightarrow> result" where
  "logout d rq =
     \<lparr>db_of = d, session_of = None, flashes = [], reply = Inr (Redirect (Url_for Index None))\<rparr>"

definition register :: "lib \<Rightarrow> db \<Rightarrow> request \<Rightarrow> result" where
  "register L d rq =
     (if current_user d rq \<noteq> None then respond d rq [] (Inr (Redirect (Url_for Index None)))
      else if validate_on_submit rq (RegistrationForm L d rq) then
        let user = \<lparr>u_id = next_id (map u_id (user_rows d)),
                    username = field_data rq ''username'',
                    email = field_data rq ''email'',
                    password_hash = generate_password_hash L (field_data rq ''password''),
                    role = field_data rq ''role''\<rparr>
        in respond (d\<lparr>user_rows := user_rows d @ [user]\<rparr>) rq
             [''Congratulations, you are now a registered user!'']
             (Inr (Redirect (Url_for Login None)))
      else respond d rq [] (Inr (Register_html (shown_errors rq (RegistrationForm L d rq)))))"

definition profile :: "db \<Rightarrow> request \<Rightarrow> result" where
  "profile d rq = login_required d rq (\<lambda>u. respond d rq [] (Inr (Profile_html u)))"

definition consultation_request :: "lib \<Rightarrow> db \<Rightarrow> request \<Rightarrow> result" where
  "consultation_request L d rq =
     login_required d rq (\<lambda>u.
       if validate_on_submit rq (ConsultationForm L rq) then
         let consultation = \<lparr>c_id = next_id (map c_id (consultation_rows d)),
                            body = field_data rq ''body'',
                            timestamp = utcnow rq,
                            user_id = Some (u_id u),
                            responder_id = None,
                            response = None\<rparr>
         in respond (d\<lparr>consultation_rows := consultation_rows d @ [consultation]\<rparr>) rq
              [''Your consultation request has been submitted.'']
              (Inr (Redirect (Url_for Index None)))
       else respond d rq []
              (Inr (Consultation_request_html (shown_errors rq (ConsultationForm L rq)))))"

text \<open>The query \<open>Consultation.query.filter_by(responder_id=None).all()\<close>.\<close>

definition unassigned :: "db \<Rightarrow> consultation list" where
  "unassigned d = filter (\<lambda>c. responder_id c = None) (consultation_rows d)"

definition consultations :: "db \<Rightarrow> request \<Rightarrow> result" where
  "consultations d rq =
     login_required d rq (\<lambda>u.
       if role u \<noteq> ''doctor'' then respond d rq [] (Inr (Redirect (Url_for Index None)))
       else respond d rq [] (Inr (Consultations_html (unassigned d))))"

definition chat :: "db \<Rightarrow> request \<Rightarrow> nat \<Rightarrow> result" where
  "chat d rq consultation_id =
     login_required d rq (\<lambda>u.
       case get_consultation d consultation_id of
         None \<Rightarrow> respond d rq [] (Inl NotFound)
       | Some c \<Rightarrow>
           let (c1, d1) =
                 (if role u = ''doctor'' \<and> responder_id c = None
                  then let c' = c\<lparr>responder_id := Some (u_id u)\<rparr>
                       in (c', commit_consultation d c')
                  else (c, d));
               (c2, d2) =
                 (if request_method rq = POST
                  then let c' = c1\<lparr>response := map_of (form rq) ''response''\<rparr>
                       in (c', commit_consultation d1 c')
                  else (c1, d1))
           in respond d2 rq [] (Inr (Chat_html c2)))"

text \<open>
  The same view in the two steps in which it touches the store. \<open>chat_load\<close> is the
  guard and the SELECT of \<open>get_or_404\<close>: it ends the request, or yields the user and the
  row as loaded. \<open>chat_commit\<close> is the rest of the view, run on the store as it is when
  the view gets there: the test \<open>consultation.responder_id is None\<close> reads the loaded
  row, and the commit writes with no lock and no condition on the stored row. Another
  request may be handled between the two steps.
\<close>

definition chat_load :: "db \<Rightarrow> request \<Rightarrow> nat \<Rightarrow> result + (user \<times> consultation)" where
  "chat_load d rq consultation_id =
     (case current_user d rq of
        None \<Rightarrow> Inl (unauthorized d rq)
      | Some u \<Rightarrow>
          (case get_consultation d consultation_id of
             None \<Rightarrow> Inl (respond d rq [] (Inl NotFound))
           | Some c \<Rightarrow> Inr (u, c)))"

definition chat_commit :: "db \<Rightarrow> request \<Rightarrow> user \<Rightarrow> consultation \<Rightarrow> result" where
  "chat_commit d rq u c =
     (let (c1, d1) =
            (if role u = ''doctor'' \<and> responder_id c = None
             then let c' = c\<lparr>responder_id := Some (u_id u)\<rparr>
                  in (c', commit_consultation d c')
             else (c, d));
          (c2, d2) =
            (if request_method rq = POST
             then let c' = c1\<lparr>response := map_of (form rq) ''response''\<rparr>
                  in (c', commit_consultation d1 c')
             else (c1, d1))
      in respond d2 rq [] (Inr (Chat_html c2)))"

section \<open>Routing and runs of requests\<close>

text \<open>
  The URL map of the decorators: a route given without \<open>methods\<close> accepts GET only,
  and a POST to it is answered 405 before the view runs. Both \<open>/\<close> and \<open>/index\<close>
  lead to \<open>index\<close>.
\<close>

datatype route =
    R_index | R_login | R_logout | R_register | R_profile
  | R_consultation_request | R_consultations | R_chat nat

definition get_only :: "db \<Rightarrow> request \<Rightarrow> result \<Rightarrow> result" where
  "get_only d rq r =
     (if request_method rq = GET then r else respond d rq [] (Inl MethodNotAllowed))"

fun dispatch :: "lib \<Rightarrow> db \<Rightarrow> route \<Rightarrow> request \<Rightarrow> result" where
  "dispatch L d R_index rq = get_only d rq (index d rq)"
| "dispatch L d R_login rq = login L d rq"
| "dispatch L d R_logout rq = get_only d rq (logout d rq)"
| "dispatch L d R_register rq = register L d rq"
| "dispatch L d R_profile rq = get_only d rq (profile d rq)"
| "dispatch L d R_consultation_request rq = consultation_request L d rq"
| "dispatch L d R_consultations rq = get_only d rq (consultations d rq)"
| "dispatch L d (R_chat k) rq = chat d rq k"

text \<open>
  A run of requests that do not overlap: each is handled to its end before the next
  begins, each with its own session cookie, so by any users in any order.
\<close>

fun run :: "lib \<Rightarrow> db \<Rightarrow> (route \<times> request) list \<Rightarrow> db" where
  "run L d [] = d"
| "run L d ((r, rq) # evs) = run L (db_of (dispatch L d r rq)) evs"

section \<open>Sample data\<close>

text \<open>
  A library for the sample data. Its \<open>str.strip\<close> reads a \<open>char\<close> as the code point of
  that number and removes the whitespace of Python's \<open>str.isspace\<close> below 256: the
  ASCII controls and the space, U+0085 and U+00A0.
\<close>

definition isspace :: "char \<Rightarrow> bool" where
  "isspace c = (of_char c \<in> set [9, 10, 11, 12, 13, 28, 29, 30, 31, 32, 133, 160 :: nat])"

definition strip :: "string \<Rightarrow> string" where
  "strip s = rev (dropWhile isspace (rev (dropWhile isspace s)))"

definition test_lib :: lib where
  "test_lib = \<lparr>generate_password_hash = (\<lambda>p. ''pbkdf2:sha256$'' @ p),
               check_password_hash = (\<lambda>h p. h = ''pbkdf2:sha256$'' @ p),
               Email_ok = (\<lambda>e. CHR ''@'' \<in> set e),
               str_strip = strip\<rparr>"

definition alice :: user where
  "alice = \<lparr>u_id = 1, username = ''alice'', email = ''a@x.com'',
            password_hash = ''pbkdf2:sha256$pa'', role = ''military''\<rparr>"

definition bob :: user where
  "bob = \<lparr>u_id = 2, username = ''bob'', email = ''b@x.com'',
          password_hash = ''pbkdf2:sha256$pb'', role = ''doctor''\<rparr>"

definition carol :: user where
  "carol = \<lparr>u_id = 3, username = ''carol'', email = ''c@x.com'',
            password_hash = ''pbkdf2:sha256$pc'', role = ''doctor''\<rparr>"

definition need_help :: consultation where
  "need_help = \<lparr>c_id = 1, body = ''need help'', timestamp = 100, user_id = Some 1,
                responder_id = None, response = None\<rparr>"

definition db0 :: db where
  "db0 = \<lparr>user_rows = [alice, bob, carol], consultation_rows = [need_help]\<rparr>"

definition req :: "http_method \<Rightarrow> nat option \<Rightarrow> (string \<times> string) list \<Rightarrow> request" where
  "req m s f = \<lparr>request_method = m, session = s, path = ''/'', args_next = None, form = f,
               csrf_ok = True, utcnow = 200\<rparr>"

definition reg_form ::
  "string \<Rightarrow> string \<Rightarrow> string \<Rightarrow> string \<Rightarrow> string \<Rightarrow> (string \<times> string) list" where
  "reg_form un em pw pw2 rl =
     [(''username'', un), (''email'', em), (''password'', pw), (''password2'', pw2),
      (''role'', rl)]"

text \<open>The store after bob has claimed the consultation and answered it.\<close>

definition answered :: consultation where
  "answered = need_help\<lparr>responder_id := Some 2, response := Some ''see a specialist''\<rparr>"

definition db2 :: db where
  "db2 = \<lparr>user_rows = [alice, bob, carol], consultation_rows = [answered]\<rparr>"

section \<open>Evaluating the sample data\<close>

lemma req_sel:
  "request_method (req m s f) = m" "session (req m s f) = s" "form (req m s f) = f"
  "csrf_ok (req m s f)" "utcnow (req m s f) = 200" "args_next (req m s f) = None"
  "path (req m s f) = ''/''"
  by (simp_all add: req_def)

lemma current_user_anonymous: "current_user d (req m None f) = None"
  by (simp add: current_user_def req_sel)

lemma load_user_samples:
  "load_user \<lparr>user_rows = [alice, bob, carol], consultation_rows = cs\<rparr> 1 = Some alice"
  "load_user \<lparr>user_rows = [alice, bob, carol], consultation_rows = cs\<rparr> 2 = Some bob"
  "load_user \<lparr>user_rows = [alice, bob, carol], consultation_rows = cs\<rparr> 3 = Some carol"
  by (simp_all add: load_user_def alice_def bob_def carol_def)

lemma current_user_db0:
  "current_user db0 (req m (Some 1) f) = Some alice"
  "current_user db0 (req m (Some 2) f) = Some bob"
  "current_user db0 (req m (Some 3) f) = Some carol"
  by (simp_all del: One_nat_def add: current_user_def req_sel db0_def load_user_samples)

lemma current_user_db2: "current_user db2 (req m (Some 1) f) = Some alice"
  by (simp del: One_nat_def add: current_user_def req_sel db2_def load_user_samples)

lemma get_consultation_samples:
  "get_consultation db0 1 = Some need_help" "get_consultation db0 7 = None"
  "get_consultation db2 1 = Some answered"
  by (simp_all add: get_consultation_def db0_def db2_def answered_def need_help_def)

lemma field_data_reg_form:
  "field_data (req m s (reg_form un em pw pw2 rl)) ''username'' = un"
  "field_data (req m s (reg_form un em pw pw2 rl)) ''email'' = em"
  "field_data (req m s (reg_form un em pw pw2 rl)) ''password'' = pw"
  "field_data (req m s (reg_form un em pw pw2 rl)) ''password2'' = pw2"
  "field_data (req m s (reg_form un em pw pw2 rl)) ''role'' = rl"
  by (simp_all add: field_data_def req_sel reg_form_def)

lemma field_data_single: "field_data (req m s [(name, v)]) name = v"
  by (simp add: field_data_def req_sel)

lemma DataRequired_Pass_iff:
  "DataRequired L s = Pass \<longleftrightarrow> s \<noteq> [] \<and> str_strip L s \<noteq> []"
  by (simp add: DataRequired_def)

lemma DataRequired_empty: "DataRequired L [] \<noteq> Pass"
  by (simp add: DataRequired_def)

lemma DataRequired_Pass:
  assumes "s \<noteq> []" and "\<not> isspace (hd s)" and "\<not> isspace (last s)"
  shows "DataRequired test_lib s = Pass"
proof -
  from assms have "dropWhile isspace s = s" by (cases s) auto
  moreover from assms have "dropWhile isspace (rev s) = rev s"
    by (cases "rev s") (auto simp: hd_rev)
  ultimately show ?thesis using assms by (simp add: DataRequired_def strip_def test_lib_def)
qed

lemma DataRequired_samples:
  "DataRequired test_lib ''alice'' = Pass" "DataRequired test_lib ''dave'' = Pass" "DataRequired test_lib ''eve'' = Pass"
  "DataRequired test_lib ''d@x.com'' = Pass" "DataRequired test_lib ''e@x.com'' = Pass"
  "DataRequired test_lib ''pd'' = Pass" "DataRequired test_lib ''pe'' = Pass" "DataRequired test_lib ''pa'' = Pass"
  "DataRequired test_lib ''military'' = Pass" "DataRequired test_lib ''admin'' = Pass"
  "DataRequired test_lib ''sprained ankle'' = Pass"
  by (rule DataRequired_Pass; simp add: isspace_def)+

lemma DataRequired_blank:
  "DataRequired test_lib ''  '' \<noteq> Pass" "DataRequired test_lib [CHR 0xA0] \<noteq> Pass"
  by (simp_all add: DataRequired_def strip_def isspace_def test_lib_def)

section \<open>Lookups in the tables\<close>

lemma find_None_set: "find P xs = None \<longleftrightarrow> \<not> (\<exists>x\<in>set xs. P x)"
  by (induction xs) auto

lemma find_append_Some: "find P xs = Some c \<Longrightarrow> find P (xs @ ys) = Some c"
  by (induction xs) (auto split: if_splits)

lemma find_map_keep_id:
  "(\<And>x. c_id (f x) = c_id x) \<Longrightarrow>
   find (\<lambda>c. c_id c = k) (map f xs) = map_option f (find (\<lambda>c. c_id c = k) xs)"
  by (induction xs) auto

lemma get_commit_consultation:
  "get_consultation (commit_consultation d c) k =
     map_option (\<lambda>x. if c_id x = c_id c then c else x) (get_consultation d k)"
  unfolding get_consultation_def commit_consultation_def
  by (simp add: find_map_keep_id)

lemma get_consultation_c_id: "get_consultation d k = Some c \<Longrightarrow> c_id c = k"
  unfolding get_consultation_def by (auto simp: find_Some_iff)

lemma fold_max_ge: "k \<in> set ks \<or> k \<le> a \<Longrightarrow> k \<le> fold max ks (a::nat)"
  by (induction ks arbitrary: a) (auto simp: max_def)

lemma next_id_fresh: "next_id ks \<notin> set ks"
proof
  assume "next_id ks \<in> set ks"
  then have "next_id ks \<le> fold max ks 0" by (simp add: fold_max_ge)
  then show False by (simp add: next_id_def)
qed

lemma next_id_123: "next_id [1, 2, 3] = 4" and next_id_1: "next_id [1] = 2"
  by (simp_all add: next_id_def)

section \<open>Form validation\<close>

lemma chain_empty_iff: "run_validation_chain vs s = [] \<longleftrightarrow> (\<forall>v\<in>set vs. v s = Pass)"
  by (induction vs) (auto split: verdict.splits)

lemma validate_username_Pass:
  "validate_username d s = Pass \<longleftrightarrow> \<not> (\<exists>u\<in>set (user_rows d). username u = s)"
proof -
  have "validate_username d s = Pass \<longleftrightarrow> find (\<lambda>u. username u = s) (user_rows d) = None"
    by (simp add: validate_username_def split: option.splits)
  then show ?thesis by (simp add: find_None_set)
qed

lemma validate_email_Pass:
  "validate_email d s = Pass \<longleftrightarrow> \<not> (\<exists>u\<in>set (user_rows d). email u = s)"
proof -
  have "validate_email d s = Pass \<longleftrightarrow> find (\<lambda>u. email u = s) (user_rows d) = None"
    by (simp add: validate_email_def split: option.splits)
  then show ?thesis by (simp add: find_None_set)
qed

lemma Email_Pass: "Email L s = Pass \<longleftrightarrow> Email_ok L s"
  by (simp add: Email_def)

lemma EqualTo_Pass: "EqualTo rq name s = Pass \<longleftrightarrow> s = field_data rq name"
  by (simp add: EqualTo_def)

lemma csrf_token_empty: "csrf_token rq = [] \<longleftrightarrow> csrf_ok rq"
  by (simp add: csrf_token_def)

lemma RegistrationForm_valid_iff:
  "RegistrationForm L d rq = [] \<longleftrightarrow>
     DataRequired L (field_data rq ''username'') = Pass \<and>
     \<not> (\<exists>u\<in>set (user_rows d). username u = field_data rq ''username'') \<and>
     DataRequired L (field_data rq ''email'') = Pass \<and>
     Email_ok L (field_data rq ''email'') \<and>
     \<not> (\<exists>u\<in>set (user_rows d). email u = field_data rq ''email'') \<and>
     DataRequired L (field_data rq ''password'') = Pass \<and>
     DataRequired L (field_data rq ''password2'') = Pass \<and>
     field_data rq ''password2'' = field_data rq ''password'' \<and>
     DataRequired L (field_data rq ''role'') = Pass \<and>
     csrf_ok rq"
  unfolding RegistrationForm_def form_errors_of_def
  by (auto simp del: run_validation_chain.simps simp add: filter_empty_conv chain_empty_iff
        validate_username_Pass validate_email_Pass Email_Pass EqualTo_Pass csrf_token_empty)

lemma ConsultationForm_valid_iff:
  "ConsultationForm L rq = [] \<longleftrightarrow> DataRequired L (field_data rq ''body'') = Pass \<and> csrf_ok rq"
  unfolding ConsultationForm_def form_errors_of_def
  by (auto simp del: run_validation_chain.simps simp add: filter_empty_conv chain_empty_iff
        csrf_token_empty)

lemma LoginForm_valid_iff:
  "LoginForm L rq = [] \<longleftrightarrow>
     DataRequired L (field_data rq ''username'') = Pass \<and>
     DataRequired L (field_data rq ''password'') = Pass \<and> csrf_ok rq"
  unfolding LoginForm_def form_errors_of_def
  by (auto simp del: run_validation_chain.simps simp add: filter_empty_conv chain_empty_iff
        csrf_token_empty)

section \<open>What each view does to the store\<close>

lemma db_of_login_required:
  "(\<And>u. db_of (view u) = d) \<Longrightarrow> db_of (login_required d rq view) = d"
  by (simp add: login_required_def unauthorized_def respond_def split: option.splits)

lemma db_of_index: "db_of (index d rq) = d"
  by (simp add: index_def db_of_login_required respond_def)

lemma db_of_profile: "db_of (profile d rq) = d"
  by (simp add: profile_def db_of_login_required respond_def)

lemma db_of_consultations: "db_of (consultations d rq) = d"
  by (simp add: consultations_def db_of_login_required respond_def)

lemma db_of_logout: "db_of (logout d rq) = d"
  by (simp add: logout_def)

lemma db_of_login: "db_of (login L d rq) = d"
  by (simp add: login_def respond_def Let_def split: option.splits)

lemma db_of_get_only: "db_of r = d \<Longrightarrow> db_of (get_only d rq r) = d"
  by (simp add: get_only_def respond_def)

lemma next_target_absent:
  "next_target None = Inr (Url_for Index None)" "next_target (Some []) = Inr (Url_for Index None)"
  by (simp_all add: next_target_def)

lemma next_target_given: "n \<noteq> [] \<Longrightarrow> next_target (Some n) = Inl (NameError ''url_parse'')"
  by (simp add: next_target_def url_parse_def)

lemma login_valid:
  assumes "current_user d rq = None" and "validate_on_submit rq (LoginForm L rq)"
    and "find (\<lambda>u. username u = field_data rq ''username'') (user_rows d) = Some user"
    and "check_password_hash L (password_hash user) (field_data rq ''password'')"
  shows "login L d rq =
     \<lparr>db_of = d, session_of = Some (u_id user), flashes = [],
      reply = (case next_target (args_next rq) of
                 Inl e \<Rightarrow> Inl e
               | Inr next_page \<Rightarrow> Inr (Redirect next_page))\<rparr>"
  using assms by (simp add: login_def)

lemma register_consultation_rows:
  "consultation_rows (db_of (register L d rq)) = consultation_rows d"
  by (simp add: register_def respond_def Let_def)

lemma consultation_request_rows:
  "consultation_rows (db_of (consultation_request L d rq)) = consultation_rows d \<or>
   (\<exists>x. consultation_rows (db_of (consultation_request L d rq)) = consultation_rows d @ [x])"
  by (simp add: consultation_request_def login_required_def unauthorized_def respond_def Let_def
        split: option.splits)

lemma consultation_request_valid:
  assumes "current_user d rq = Some u" and "request_method rq = POST" and "csrf_ok rq"
    and "DataRequired L (field_data rq ''body'') = Pass"
  shows "consultation_request L d rq =
     respond (d\<lparr>consultation_rows := consultation_rows d @
                [\<lparr>c_id = next_id (map c_id (consultation_rows d)),
                  body = field_data rq ''body'', timestamp = utcnow rq,
                  user_id = Some (u_id u), responder_id = None, response = None\<rparr>]\<rparr>) rq
       [''Your consultation request has been submitted.'']
       (Inr (Redirect (Url_for Index None)))"
  using assms
  by (simp add: consultation_request_def login_required_def validate_on_submit_def
        ConsultationForm_valid_iff Let_def)

lemma consultation_request_blank:
  assumes "current_user d rq = Some u" and "DataRequired L (field_data rq ''body'') \<noteq> Pass"
  shows "consultation_request L d rq =
     respond d rq [] (Inr (Consultation_request_html (shown_errors rq (ConsultationForm L rq))))"
  using assms
  by (simp add: consultation_request_def login_required_def validate_on_submit_def
        ConsultationForm_valid_iff)

lemma chat_anonymous: "current_user d rq = None \<Longrightarrow> chat d rq k = unauthorized d rq"
  by (simp add: chat_def login_required_def)

lemma chat_missing:
  "current_user d rq = Some u \<Longrightarrow> get_consultation d k = None \<Longrightarrow>
   chat d rq k = respond d rq [] (Inl NotFound)"
  by (simp add: chat_def login_required_def)

lemma chat_found_page:
  "current_user d rq = Some u \<Longrightarrow> get_consultation d k = Some c \<Longrightarrow>
   reply (chat d rq k) =
     Inr (Chat_html (c\<lparr>responder_id :=
                   (if role u = ''doctor'' \<and> responder_id c = None then Some (u_id u)
                    else responder_id c),
                response :=
                   (if request_method rq = POST then map_of (form rq) ''response'' else response c)\<rparr>))
   \<and> flashes (chat d rq k) = []"
  by (simp add: chat_def login_required_def respond_def Let_def split: prod.splits)

lemma chat_found_get:
  "current_user d rq = Some u \<Longrightarrow> get_consultation d k = Some c \<Longrightarrow>
   get_consultation (db_of (chat d rq k)) j =
     (if j = k then
        Some (c\<lparr>responder_id :=
                   (if role u = ''doctor'' \<and> responder_id c = None then Some (u_id u)
                    else responder_id c),
                response :=
                   (if request_method rq = POST then map_of (form rq) ''response'' else response c)\<rparr>)
      else get_consultation d j)"
  apply (frule get_consultation_c_id)
  apply (cases "get_consultation d j")
  apply (auto simp: chat_def login_required_def respond_def Let_def get_commit_consultation
           split: prod.splits dest: get_consultation_c_id)
  done

lemma chat_claim_rows:
  assumes "current_user d rq = Some u" and "get_consultation d k = Some c"
    and "role u = ''doctor''" and "responder_id c = None"
  shows "\<forall>x\<in>set (consultation_rows (db_of (chat d rq k))).
           c_id x = k \<longrightarrow> responder_id x = Some (u_id u)"
  using assms get_consultation_c_id[OF assms(2)]
  by (auto simp: chat_def login_required_def respond_def Let_def commit_consultation_def
        split: prod.splits)

lemma chat_keeps_responder:
  assumes "get_consultation d j = Some c" and "responder_id c = Some doc"
  shows "\<exists>c'. get_consultation (db_of (chat d rq k)) j = Some c' \<and> responder_id c' = Some doc"
proof (cases "current_user d rq")
  case None
  with assms show ?thesis
    by (simp add: chat_anonymous unauthorized_def respond_def)
next
  case (Some u)
  show ?thesis
  proof (cases "get_consultation d k")
    case None
    with Some assms show ?thesis by (simp add: chat_missing respond_def)
  next
    case (Some x)
    with \<open>current_user d rq = Some u\<close> assms show ?thesis
      by (auto simp: chat_found_get)
  qed
qed

lemma dispatch_keeps_responder:
  assumes "get_consultation d j = Some c" and "responder_id c = Some doc"
  shows "\<exists>c'. get_consultation (db_of (dispatch L d r rq)) j = Some c' \<and>
              responder_id c' = Some doc"
proof (cases r)
  case R_register
  with assms show ?thesis
    by (simp add: get_consultation_def register_consultation_rows)
next
  case R_consultation_request
  with assms consultation_request_rows[of L d rq] show ?thesis
    by (auto simp: get_consultation_def find_append_Some)
next
  case (R_chat k)
  with assms chat_keeps_responder[of d j c doc rq k] show ?thesis by simp
qed (use assms in \<open>simp_all add: db_of_get_only db_of_index db_of_profile db_of_consultations
       db_of_logout db_of_login\<close>)

section \<open>The claims\<close>

text \<open>
  Requests that do not overlap. Once the responder of a consultation is set, no run of
  such requests changes it, whatever the routes and the sessions: the test
  \<open>consultation.responder_id is None\<close> then reads the row as it is stored.
\<close>

lemma responder_kept_in_sequence:
  assumes "get_consultation d k = Some c" and "responder_id c = Some doc"
  shows "(\<exists>c'. get_consultation (run L d evs) k = Some c' \<and> responder_id c' = Some doc) \<and>
         map_option responder_id (get_consultation (db_of (chat d rq k)) k) = Some (Some doc)"
proof
  from assms show "\<exists>c'. get_consultation (run L d evs) k = Some c' \<and> responder_id c' = Some doc"
  proof (induction evs arbitrary: d c)
    case Nil
    then show ?case by simp
  next
    case (Cons ev evs)
    obtain r q where ev: "ev = (r, q)" by (cases ev)
    from dispatch_keeps_responder[OF Cons.prems, of L r q]
    obtain c1 where "get_consultation (db_of (dispatch L d r q)) k = Some c1"
      and "responder_id c1 = Some doc" by blast
    from Cons.IH[OF this] ev show ?case by simp
  qed
  from chat_keeps_responder[OF assms, of rq k]
  show "map_option responder_id (get_consultation (db_of (chat d rq k)) k) = Some (Some doc)"
    by auto
qed

text \<open>
  Requests that overlap. The view is its two steps run one after the other; when the
  steps of another request come between them, the second step works on a row that is
  no longer the stored one. For a doctor whose loaded row has no responder the commit
  stores that doctor, whatever responder the store holds by then.
\<close>

lemma chat_in_two_steps:
  "chat d rq k = (case chat_load d rq k of Inl r \<Rightarrow> r | Inr (u, c) \<Rightarrow> chat_commit d rq u c)"
  by (simp add: chat_def chat_load_def chat_commit_def login_required_def
        split: option.splits)

lemma chat_commit_unguarded:
  assumes "role u = ''doctor''" and "responder_id c = None" and "request_method rq = GET"
    and "get_consultation d (c_id c) = Some x"
  shows "get_consultation (db_of (chat_commit d rq u c)) (c_id c) =
           Some (c\<lparr>responder_id := Some (u_id u)\<rparr>)"
  using assms get_consultation_c_id [OF assms(4)]
  by (simp add: chat_commit_def respond_def Let_def get_commit_consultation)

text \<open>
  C1. Two doctors open the same unassigned consultation and their requests overlap:
  carol's view and bob's view both load the row while its responder is unset, then
  carol's commit stores carol (user 3) as responder, then bob's commit stores bob
  (user 2). The responder, once set to carol, has been changed: it is set twice, and
  the first doctor to claim the consultation does not remain its responder.
\<close>

theorem responder_overwritten_on_overlap:
  "chat_load db0 (req GET (Some 3) []) 1 = Inr (carol, need_help) \<and>
   chat_load db0 (req GET (Some 2) []) 1 = Inr (bob, need_help) \<and>
   map_option responder_id
     (get_consultation (db_of (chat_commit db0 (req GET (Some 3) []) carol need_help)) 1)
     = Some (Some 3) \<and>
   map_option responder_id
     (get_consultation
        (db_of (chat_commit (db_of (chat_commit db0 (req GET (Some 3) []) carol need_help))
                  (req GET (Some 2) []) bob need_help)) 1)
     = Some (Some 2)"
proof -
  let ?rc = "req GET (Some 3) []" and ?rb = "req GET (Some 2) []"
  have users: "current_user db0 ?rc = Some carol" "current_user db0 ?rb = Some bob"
    by (rule current_user_db0)+
  have row: "get_consultation db0 1 = Some need_help" by (rule get_consultation_samples)
  have key: "c_id need_help = 1" and unset: "responder_id need_help = None"
    by (simp_all add: need_help_def)
  have doctors: "role carol = ''doctor''" "role bob = ''doctor''"
    and ids: "u_id carol = 3" "u_id bob = 2"
    by (simp_all add: carol_def bob_def)
  have get: "request_method ?rc = GET" "request_method ?rb = GET"
    by (simp_all add: req_sel)
  have loads: "chat_load db0 ?rc 1 = Inr (carol, need_help)"
              "chat_load db0 ?rb 1 = Inr (bob, need_help)"
    by (simp_all del: One_nat_def add: chat_load_def users row)
  let ?d = "db_of (chat_commit db0 ?rc carol need_help)"
  from row key have "get_consultation db0 (c_id need_help) = Some need_help" by simp
  from chat_commit_unguarded [OF doctors(1) unset get(1) this]
  have first: "get_consultation ?d (c_id need_help) = Some (need_help\<lparr>responder_id := Some 3\<rparr>)"
    by (simp add: ids)
  from chat_commit_unguarded [OF doctors(2) unset get(2) first]
  have second: "get_consultation (db_of (chat_commit ?d ?rb bob need_help)) (c_id need_help) =
      Some (need_help\<lparr>responder_id := Some 2\<rparr>)"
    by (simp add: ids)
  from loads first second show ?thesis
    by (simp add: key)
qed

text \<open>
  C2. A registration form posted by an anonymous client. A field is blank, that is
  refused by \<open>DataRequired\<close>, exactly when it is absent or empty or \<open>str.strip\<close> leaves
  nothing of it, for whatever \<open>str.strip\<close> the library has. If the username or the email
  is that of a stored user, or the two passwords differ, or the address check rejects
  the email, or one of the five fields is blank, the register page is rendered with a
  non-empty \<open>form.errors\<close> and the store is unchanged. Whenever the reply is not the
  redirect of success the store is unchanged. On success the user table is the old
  one followed by exactly one row, whose \<open>password_hash\<close> is the result of
  \<open>generate_password_hash\<close> on the password; and success is what happens when no check
  fails and the CSRF token is accepted.
\<close>

theorem register_validation:
  assumes "current_user d rq = None" and "request_method rq = POST"
  shows "(\<forall>s. DataRequired L s \<noteq> Pass \<longleftrightarrow> s = [] \<or> str_strip L s = []) \<and>
         (((\<exists>u\<in>set (user_rows d). username u = field_data rq ''username'') \<or>
          (\<exists>u\<in>set (user_rows d). email u = field_data rq ''email'') \<or>
          field_data rq ''password'' \<noteq> field_data rq ''password2'' \<or>
          \<not> Email_ok L (field_data rq ''email'') \<or>
          DataRequired L (field_data rq ''username'') \<noteq> Pass \<or>
          DataRequired L (field_data rq ''email'') \<noteq> Pass \<or>
          DataRequired L (field_data rq ''password'') \<noteq> Pass \<or>
          DataRequired L (field_data rq ''password2'') \<noteq> Pass \<or>
          DataRequired L (field_data rq ''role'') \<noteq> Pass
          \<longrightarrow> (\<exists>errs. errs \<noteq> [] \<and> reply (register L d rq) = Inr (Register_html errs)) \<and>
              db_of (register L d rq) = d) \<and>
         (reply (register L d rq) \<noteq> Inr (Redirect (Url_for Login None))
          \<longrightarrow> db_of (register L d rq) = d) \<and>
         (reply (register L d rq) = Inr (Redirect (Url_for Login None))
          \<longrightarrow> db_of (register L d rq) =
                d\<lparr>user_rows := user_rows d @
                   [\<lparr>u_id = next_id (map u_id (user_rows d)),
                     username = field_data rq ''username'',
                     email = field_data rq ''email'',
                     password_hash = generate_password_hash L (field_data rq ''password''),
                     role = field_data rq ''role''\<rparr>]\<rparr>) \<and>
         (\<not> (\<exists>u\<in>set (user_rows d). username u = field_data rq ''username'') \<and>
          \<not> (\<exists>u\<in>set (user_rows d). email u = field_data rq ''email'') \<and>
          field_data rq ''password'' = field_data rq ''password2'' \<and>
          Email_ok L (field_data rq ''email'') \<and>
          DataRequired L (field_data rq ''username'') = Pass \<and>
          DataRequired L (field_data rq ''email'') = Pass \<and>
          DataRequired L (field_data rq ''password'') = Pass \<and>
          DataRequired L (field_data rq ''password2'') = Pass \<and>
          DataRequired L (field_data rq ''role'') = Pass \<and> csrf_ok rq
          \<longrightarrow> reply (register L d rq) = Inr (Redirect (Url_for Login None))))"
    (is "_ \<and> ?rest")
proof (rule conjI)
  show "\<forall>s. DataRequired L s \<noteq> Pass \<longleftrightarrow> s = [] \<or> str_strip L s = []"
    by (simp add: DataRequired_Pass_iff)
  show ?rest
  proof (cases "RegistrationForm L d rq = []")
    case True
    with assms have "register L d rq =
        respond (d\<lparr>user_rows := user_rows d @
                     [\<lparr>u_id = next_id (map u_id (user_rows d)),
                       username = field_data rq ''username'',
                       email = field_data rq ''email'',
                       password_hash = generate_password_hash L (field_data rq ''password''),
                       role = field_data rq ''role''\<rparr>]\<rparr>) rq
          [''Congratulations, you are now a registered user!'']
          (Inr (Redirect (Url_for Login None)))"
      by (simp add: register_def validate_on_submit_def Let_def)
    moreover from True have "\<not> ((\<exists>u\<in>set (user_rows d). username u = field_data rq ''username'') \<or>
            (\<exists>u\<in>set (user_rows d). email u = field_data rq ''email'') \<or>
            field_data rq ''password'' \<noteq> field_data rq ''password2'' \<or>
            \<not> Email_ok L (field_data rq ''email'') \<or>
            DataRequired L (field_data rq ''username'') \<noteq> Pass \<or>
            DataRequired L (field_data rq ''email'') \<noteq> Pass \<or>
            DataRequired L (field_data rq ''password'') \<noteq> Pass \<or>
            DataRequired L (field_data rq ''password2'') \<noteq> Pass \<or>
            DataRequired L (field_data rq ''role'') \<noteq> Pass)"
      unfolding RegistrationForm_valid_iff by simp
    ultimately show ?thesis by (simp add: respond_def)
  next
    case False
    with assms have "register L d rq =
        respond d rq [] (Inr (Register_html (RegistrationForm L d rq)))"
      by (simp add: register_def validate_on_submit_def shown_errors_def)
    moreover from False have "\<not> (\<not> (\<exists>u\<in>set (user_rows d). username u = field_data rq ''username'') \<and>
            \<not> (\<exists>u\<in>set (user_rows d). email u = field_data rq ''email'') \<and>
            field_data rq ''password'' = field_data rq ''password2'' \<and>
            Email_ok L (field_data rq ''email'') \<and>
            DataRequired L (field_data rq ''username'') = Pass \<and>
            DataRequired L (field_data rq ''email'') = Pass \<and>
            DataRequired L (field_data rq ''password'') = Pass \<and>
            DataRequired L (field_data rq ''password2'') = Pass \<and>
            DataRequired L (field_data rq ''role'') = Pass \<and> csrf_ok rq)"
      unfolding RegistrationForm_valid_iff by auto
    ultimately show ?thesis using False by (simp add: respond_def)
  qed
qed

theorem register_validation_witness:
  "current_user db0 (req POST None (reg_form ''alice'' ''d@x.com'' ''pd'' ''pd'' ''military''))
     = None \<and>
   request_method (req POST None (reg_form ''alice'' ''d@x.com'' ''pd'' ''pd'' ''military'')) = POST \<and>
   db_of (register test_lib db0
            (req POST None (reg_form ''alice'' ''d@x.com'' ''pd'' ''pd'' ''military''))) = db0 \<and>
   DataRequired test_lib
     (field_data (req POST None (reg_form ''dave'' ''d@x.com'' ''pd'' ''pd'' [CHR 0xA0])) ''role'')
     \<noteq> Pass \<and>
   db_of (register test_lib db0
            (req POST None (reg_form ''dave'' ''d@x.com'' ''pd'' ''pd'' [CHR 0xA0]))) = db0 \<and>
   DataRequired test_lib
     (field_data (req POST None (reg_form ''dave'' ''d@x.com'' ''  '' ''  '' ''military''))
        ''password'') \<noteq> Pass \<and>
   db_of (register test_lib db0
            (req POST None (reg_form ''dave'' ''d@x.com'' ''  '' ''  '' ''military''))) = db0 \<and>
   field_data
     (req POST None
        [(''username'', ''dave''), (''email'', ''d@x.com''), (''password'', ''pd''),
         (''password2'', ''pd'')]) ''role'' = [] \<and>
   db_of (register test_lib db0
            (req POST None
               [(''username'', ''dave''), (''email'', ''d@x.com''), (''password'', ''pd''),
                (''password2'', ''pd'')])) = db0 \<and>
   db_of (register test_lib db0
            (req POST None (reg_form ''dave'' ''d@x.com'' ''pd'' ''pd'' ''military''))) =
     \<lparr>user_rows = [alice, bob, carol,
         \<lparr>u_id = 4, username = ''dave'', email = ''d@x.com'',
          password_hash = ''pbkdf2:sha256$pd'', role = ''military''\<rparr>],
      consultation_rows = [need_help]\<rparr>"
proof -
  let ?dup = "req POST None (reg_form ''alice'' ''d@x.com'' ''pd'' ''pd'' ''military'')"
  let ?new = "req POST None (reg_form ''dave'' ''d@x.com'' ''pd'' ''pd'' ''military'')"
  have anon: "current_user db0 ?dup = None" "current_user db0 ?new = None"
    by (rule current_user_anonymous)+
  have post: "request_method ?dup = POST" "request_method ?new = POST"
    by (simp_all add: req_sel)
  have taken: "\<exists>u\<in>set (user_rows db0). username u = field_data ?dup ''username''"
    by (simp add: field_data_reg_form db0_def alice_def)
  from register_validation [OF anon(1) post(1), of test_lib] taken
  have dup: "db_of (register test_lib db0 ?dup) = db0" by blast
  let ?nbsp = "req POST None (reg_form ''dave'' ''d@x.com'' ''pd'' ''pd'' [CHR 0xA0])"
  let ?spaces = "req POST None (reg_form ''dave'' ''d@x.com'' ''  '' ''  '' ''military'')"
  let ?norole = "req POST None
        [(''username'', ''dave''), (''email'', ''d@x.com''), (''password'', ''pd''),
         (''password2'', ''pd'')]"
  have blank: "DataRequired test_lib (field_data ?nbsp ''role'') \<noteq> Pass"
              "DataRequired test_lib (field_data ?spaces ''password'') \<noteq> Pass"
    by (simp_all add: field_data_reg_form DataRequired_blank)
  have absent: "field_data ?norole ''role'' = []"
    by (simp add: field_data_def req_sel)
  then have blank3: "DataRequired test_lib (field_data ?norole ''role'') \<noteq> Pass"
    by (simp add: DataRequired_empty)
  have "current_user db0 ?nbsp = None" "request_method ?nbsp = POST"
    by (simp_all add: current_user_anonymous req_sel)
  from register_validation [OF this, of test_lib] blank(1)
  have r1: "db_of (register test_lib db0 ?nbsp) = db0" by blast
  have "current_user db0 ?spaces = None" "request_method ?spaces = POST"
    by (simp_all add: current_user_anonymous req_sel)
  from register_validation [OF this, of test_lib] blank(2)
  have r2: "db_of (register test_lib db0 ?spaces) = db0" by blast
  have "current_user db0 ?norole = None" "request_method ?norole = POST"
    by (simp_all add: current_user_anonymous req_sel)
  from register_validation [OF this, of test_lib] blank3
  have r3: "db_of (register test_lib db0 ?norole) = db0" by blast
  have rows: "user_rows db0 = [alice, bob, carol]" "consultation_rows db0 = [need_help]"
    by (simp_all add: db0_def)
  have free: "\<not> (\<exists>u\<in>set (user_rows db0). username u = ''dave'')"
             "\<not> (\<exists>u\<in>set (user_rows db0). email u = ''d@x.com'')"
    by (simp_all add: rows alice_def bob_def carol_def)
  have ids: "map u_id (user_rows db0) = [1, 2, 3]"
    by (simp add: rows alice_def bob_def carol_def)
  have lib: "Email_ok test_lib ''d@x.com''"
            "generate_password_hash test_lib ''pd'' = ''pbkdf2:sha256$pd''"
    by (simp_all add: test_lib_def)
  from register_validation [OF anon(2) post(2), of test_lib] free lib
  have new: "db_of (register test_lib db0 ?new) =
      db0\<lparr>user_rows := user_rows db0 @
         [\<lparr>u_id = 4, username = ''dave'', email = ''d@x.com'',
           password_hash = ''pbkdf2:sha256$pd'', role = ''military''\<rparr>]\<rparr>"
    by (simp del: One_nat_def add: field_data_reg_form DataRequired_samples req_sel ids
          next_id_123)
  from anon post dup new blank absent r1 r2 r3 show ?thesis by (simp add: db0_def)
qed

text \<open>
  C3. A consultation form posted in an active session, with the CSRF token accepted.
  The body is blank, that is refused by \<open>DataRequired\<close>, exactly when it is absent or
  empty or \<open>str.strip\<close> leaves nothing of it, for whatever \<open>str.strip\<close> the library has.
  When the body is not blank the consultation table is the old one followed by exactly
  one row, with a key no stored row has, the posted body, the clock reading of the
  request, the session user as \<open>user_id\<close>, and \<open>responder_id\<close> and \<open>response\<close> unset.
  When the body is blank the store is unchanged and the form is rendered with errors.
\<close>

theorem consultation_request_submit:
  assumes "current_user d rq = Some u" and "request_method rq = POST"
  shows "(\<forall>s. DataRequired L s \<noteq> Pass \<longleftrightarrow> s = [] \<or> str_strip L s = []) \<and>
         ((csrf_ok rq \<and> DataRequired L (field_data rq ''body'') = Pass \<longrightarrow>
            db_of (consultation_request L d rq) =
              d\<lparr>consultation_rows := consultation_rows d @
                 [\<lparr>c_id = next_id (map c_id (consultation_rows d)),
                   body = field_data rq ''body'', timestamp = utcnow rq,
                   user_id = Some (u_id u), responder_id = None, response = None\<rparr>]\<rparr> \<and>
            next_id (map c_id (consultation_rows d)) \<notin> c_id ` set (consultation_rows d)) \<and>
         (DataRequired L (field_data rq ''body'') \<noteq> Pass \<longrightarrow>
            db_of (consultation_request L d rq) = d \<and>
            (\<exists>errs. errs \<noteq> [] \<and>
               reply (consultation_request L d rq) = Inr (Consultation_request_html errs))))"
    (is "_ \<and> ?rest")
proof (rule conjI)
  show "\<forall>s. DataRequired L s \<noteq> Pass \<longleftrightarrow> s = [] \<or> str_strip L s = []"
    by (simp add: DataRequired_Pass_iff)
  show ?rest
  proof (intro conjI impI)
    assume ok: "csrf_ok rq \<and> DataRequired L (field_data rq ''body'') = Pass"
    with assms show "db_of (consultation_request L d rq) =
                d\<lparr>consultation_rows := consultation_rows d @
                   [\<lparr>c_id = next_id (map c_id (consultation_rows d)),
                     body = field_data rq ''body'', timestamp = utcnow rq,
                     user_id = Some (u_id u), responder_id = None, response = None\<rparr>]\<rparr>"
      by (simp add: consultation_request_valid respond_def)
    from next_id_fresh[of "map c_id (consultation_rows d)"]
    show "next_id (map c_id (consultation_rows d)) \<notin> c_id ` set (consultation_rows d)"
      by simp
  next
    assume blank: "DataRequired L (field_data rq ''body'') \<noteq> Pass"
    with assms show "db_of (consultation_request L d rq) = d"
      by (simp add: consultation_request_blank respond_def)
    from blank have "ConsultationForm L rq \<noteq> []" by (simp add: ConsultationForm_valid_iff)
    with assms blank
    show "\<exists>errs. errs \<noteq> [] \<and>
            reply (consultation_request L d rq) = Inr (Consultation_request_html errs)"
      by (simp add: consultation_request_blank respond_def shown_errors_def)
  qed
qed

theorem consultation_request_submit_witness:
  "current_user db0 (req POST (Some 1) [(''body'', ''sprained ankle'')]) = Some alice \<and>
   request_method (req POST (Some 1) [(''body'', ''sprained ankle'')]) = POST \<and>
   csrf_ok (req POST (Some 1) [(''body'', ''sprained ankle'')]) \<and>
   DataRequired test_lib (field_data (req POST (Some 1) [(''body'', ''sprained ankle'')]) ''body'') = Pass \<and>
   db_of (consultation_request test_lib db0 (req POST (Some 1) [(''body'', ''sprained ankle'')])) =
     \<lparr>user_rows = [alice, bob, carol],
      consultation_rows =
        [need_help,
         \<lparr>c_id = 2, body = ''sprained ankle'', timestamp = 200, user_id = Some 1,
          responder_id = None, response = None\<rparr>]\<rparr> \<and>
   DataRequired test_lib (field_data (req POST (Some 1) [(''body'', ''  '')]) ''body'') \<noteq> Pass \<and>
   db_of (consultation_request test_lib db0 (req POST (Some 1) [(''body'', ''  '')])) = db0 \<and>
   DataRequired test_lib (field_data (req POST (Some 1) [(''body'', [CHR 0xA0])]) ''body'')
     \<noteq> Pass \<and>
   db_of (consultation_request test_lib db0 (req POST (Some 1) [(''body'', [CHR 0xA0])])) = db0 \<and>
   field_data (req POST (Some 1) []) ''body'' = [] \<and>
   db_of (consultation_request test_lib db0 (req POST (Some 1) [])) = db0"
proof -
  let ?ok = "req POST (Some 1) [(''body'', ''sprained ankle'')]"
  let ?blank = "req POST (Some 1) [(''body'', ''  '')]"
  let ?nbsp = "req POST (Some 1) [(''body'', [CHR 0xA0])]"
  let ?absent = "req POST (Some 1) []"
  have user: "current_user db0 ?ok = Some alice" "current_user db0 ?blank = Some alice"
    by (rule current_user_db0)+
  have post: "request_method ?ok = POST" "request_method ?blank = POST" and csrf: "csrf_ok ?ok"
    by (simp_all add: req_sel)
  have body: "DataRequired test_lib (field_data ?ok ''body'') = Pass"
             "DataRequired test_lib (field_data ?blank ''body'') \<noteq> Pass"
    by (simp_all add: field_data_single DataRequired_samples DataRequired_blank)
  have ids: "map c_id (consultation_rows db0) = [1]" and alice: "u_id alice = 1"
    by (simp_all add: db0_def need_help_def alice_def)
  from consultation_request_submit [OF user(1) post(1), where L = test_lib] csrf body(1)
  have "db_of (consultation_request test_lib db0 ?ok) =
      db0\<lparr>consultation_rows := consultation_rows db0 @
         [\<lparr>c_id = 2, body = ''sprained ankle'', timestamp = 200, user_id = Some 1,
           responder_id = None, response = None\<rparr>]\<rparr>"
    by (simp del: One_nat_def add: ids next_id_1 alice field_data_single req_sel)
  moreover from consultation_request_submit [OF user(2) post(2), where L = test_lib] body(2)
  have "db_of (consultation_request test_lib db0 ?blank) = db0" by blast
  moreover have nbsp: "DataRequired test_lib (field_data ?nbsp ''body'') \<noteq> Pass"
    by (simp add: field_data_single DataRequired_blank)
  moreover have "current_user db0 ?nbsp = Some alice" "request_method ?nbsp = POST"
    by (rule current_user_db0, simp add: req_sel)
  from consultation_request_submit [OF this, where L = test_lib] nbsp
  have "db_of (consultation_request test_lib db0 ?nbsp) = db0" by blast
  moreover have absent: "field_data ?absent ''body'' = []"
    by (simp add: field_data_def req_sel)
  moreover have "current_user db0 ?absent = Some alice" "request_method ?absent = POST"
    by (rule current_user_db0, simp add: req_sel)
  from consultation_request_submit [OF this, where L = test_lib] absent
    DataRequired_empty [of test_lib]
  have "db_of (consultation_request test_lib db0 ?absent) = db0" by simp
  ultimately show ?thesis using user post csrf body by (simp add: db0_def)
qed

text \<open>
  C4. The queue, for a request in an active session. For a doctor the page lists
  \<open>unassigned d\<close>: the rows of the consultation table whose \<open>responder_id\<close> is unset, all
  of them and no other, in storage order. For any other role the reply is the redirect
  to the home page. In both cases nothing is flashed and the store is unchanged. A
  consultation just created by a valid submission is in \<open>unassigned\<close> of the new store,
  and after a doctor has opened an unassigned consultation no row with its key is.
\<close>

theorem consultations_queue:
  assumes "current_user d rq = Some u"
  shows "(role u = ''doctor'' \<longrightarrow>
            reply (consultations d rq) = Inr (Consultations_html (unassigned d))) \<and>
         set (unassigned d) = {c \<in> set (consultation_rows d). responder_id c = None} \<and>
         (role u \<noteq> ''doctor'' \<longrightarrow>
            reply (consultations d rq) = Inr (Redirect (Url_for Index None))) \<and>
         flashes (consultations d rq) = [] \<and>
         db_of (consultations d rq) = d \<and>
         (\<forall>rq' v. current_user d rq' = Some v \<and> request_method rq' = POST \<and> csrf_ok rq' \<and>
             DataRequired L (field_data rq' ''body'') = Pass \<longrightarrow>
             (\<exists>c\<in>set (unassigned (db_of (consultation_request L d rq'))).
                c_id c = next_id (map c_id (consultation_rows d)) \<and>
                body c = field_data rq' ''body'')) \<and>
         (\<forall>rq' v k c. current_user d rq' = Some v \<and> role v = ''doctor'' \<and>
             get_consultation d k = Some c \<and> responder_id c = None \<longrightarrow>
             (\<forall>x\<in>set (unassigned (db_of (chat d rq' k))). c_id x \<noteq> k))"
proof (intro conjI allI impI)
  show "set (unassigned d) = {c \<in> set (consultation_rows d). responder_id c = None}"
    by (auto simp: unassigned_def)
  show "flashes (consultations d rq) = []"
    using assms by (simp add: consultations_def login_required_def respond_def)
  show "db_of (consultations d rq) = d"
    by (rule db_of_consultations)
next
  assume "role u = ''doctor''"
  with assms show "reply (consultations d rq) = Inr (Consultations_html (unassigned d))"
    by (simp add: consultations_def login_required_def respond_def)
next
  assume "role u \<noteq> ''doctor''"
  with assms show "reply (consultations d rq) = Inr (Redirect (Url_for Index None))"
    by (simp add: consultations_def login_required_def respond_def)
next
  fix rq' v
  assume "current_user d rq' = Some v \<and> request_method rq' = POST \<and> csrf_ok rq' \<and>
          DataRequired L (field_data rq' ''body'') = Pass"
  then show "\<exists>c\<in>set (unassigned (db_of (consultation_request L d rq'))).
                c_id c = next_id (map c_id (consultation_rows d)) \<and>
                body c = field_data rq' ''body''"
    by (simp add: consultation_request_valid respond_def unassigned_def)
next
  fix rq' v k c
  assume a: "current_user d rq' = Some v \<and> role v = ''doctor'' \<and>
          get_consultation d k = Some c \<and> responder_id c = None"
  with chat_claim_rows[of d rq' v k c]
  show "\<forall>x\<in>set (unassigned (db_of (chat d rq' k))). c_id x \<noteq> k"
    by (auto simp: unassigned_def)
qed

theorem consultations_queue_witness:
  "current_user db0 (req GET (Some 2) []) = Some bob \<and> role bob = ''doctor'' \<and>
   reply (consultations db0 (req GET (Some 2) [])) = Inr (Consultations_html [need_help]) \<and>
   current_user db0 (req GET (Some 1) []) = Some alice \<and> role alice \<noteq> ''doctor'' \<and>
   reply (consultations db0 (req GET (Some 1) [])) = Inr (Redirect (Url_for Index None)) \<and>
   get_consultation db0 1 = Some need_help \<and> responder_id need_help = None \<and>
   list_all (\<lambda>x. c_id x \<noteq> 1) (unassigned (db_of (chat db0 (req GET (Some 2) []) 1)))"
proof -
  have user: "current_user db0 (req GET (Some 2) []) = Some bob"
             "current_user db0 (req GET (Some 1) []) = Some alice"
    by (rule current_user_db0)+
  have roles: "role bob = ''doctor''" "role alice \<noteq> ''doctor''"
    by (simp_all add: bob_def alice_def)
  have c: "get_consultation db0 1 = Some need_help" "responder_id need_help = None"
    by (rule get_consultation_samples, simp add: need_help_def)
  have q: "unassigned db0 = [need_help]"
    by (simp add: unassigned_def db0_def need_help_def)
  from consultations_queue [OF user(1)] roles(1) q
  have "reply (consultations db0 (req GET (Some 2) [])) = Inr (Consultations_html [need_help])"
    by simp
  moreover from consultations_queue [OF user(2)] roles(2)
  have "reply (consultations db0 (req GET (Some 1) [])) = Inr (Redirect (Url_for Index None))"
    by blast
  moreover from consultations_queue [OF user(1)] user(1) roles(1) c
  have "list_all (\<lambda>x. c_id x \<noteq> 1) (unassigned (db_of (chat db0 (req GET (Some 2) []) 1)))"
    unfolding list_all_iff by blast
  ultimately show ?thesis using user roles c by blast
qed

text \<open>
  C5. The chat view, for a request in an active session. The reply is NotFound exactly
  when no consultation has the requested key, and the store is then unchanged.
  Otherwise the responder of that consultation becomes the session user when that user
  is a doctor and the responder was unset, and in every other case it is what it was.
\<close>

theorem chat_open:
  assumes "current_user d rq = Some u"
  shows "(reply (chat d rq k) = Inl NotFound \<longleftrightarrow> get_consultation d k = None) \<and>
         (get_consultation d k = None \<longrightarrow> db_of (chat d rq k) = d) \<and>
         (\<forall>c. get_consultation d k = Some c \<longrightarrow>
            map_option responder_id (get_consultation (db_of (chat d rq k)) k) =
              Some (if role u = ''doctor'' \<and> responder_id c = None then Some (u_id u)
                    else responder_id c))"
proof (cases "get_consultation d k")
  case None
  with assms show ?thesis by (simp add: chat_missing respond_def)
next
  case (Some c)
  with assms chat_found_page[of d rq u k c] show ?thesis
    by (auto simp: chat_found_get)
qed

theorem chat_open_witness:
  "current_user db0 (req GET (Some 2) []) = Some bob \<and>
   reply (chat db0 (req GET (Some 2) []) 7) = Inl NotFound \<and>
   get_consultation db0 1 = Some need_help \<and>
   map_option responder_id
     (get_consultation (db_of (chat db0 (req GET (Some 2) []) 1)) 1) = Some (Some 2)"
proof -
  have user: "current_user db0 (req GET (Some 2) []) = Some bob"
    by (rule current_user_db0)
  have bob: "role bob = ''doctor''" "u_id bob = 2"
    by (simp_all add: bob_def)
  have c: "get_consultation db0 1 = Some need_help" "get_consultation db0 7 = None"
    by (rule get_consultation_samples)+
  have open_c: "responder_id need_help = None"
    by (simp add: need_help_def)
  from chat_open [OF user, of 7] c(2)
  have "reply (chat db0 (req GET (Some 2) []) 7) = Inl NotFound" by blast
  moreover from chat_open [OF user, of 1] c(1)
  have "map_option responder_id (get_consultation (db_of (chat db0 (req GET (Some 2) []) 1)) 1)
          = Some (if role bob = ''doctor'' \<and> responder_id need_help = None then Some (u_id bob)
                  else responder_id need_help)"
    by blast
  ultimately show ?thesis using user bob c open_c by simp
qed

text \<open>
  C6. A POST to the chat view that carries a \<open>response\<close> field, in any active session
  and for any stored consultation: the stored \<open>response\<close> becomes the posted text,
  whatever it was before, and whoever the session user is (no premise relates the user
  to the responder of the consultation).
\<close>

theorem chat_respond:
  assumes "current_user d rq = Some u" and "get_consultation d k = Some c"
    and "request_method rq = POST" and "map_of (form rq) ''response'' = Some text"
  shows "map_option response (get_consultation (db_of (chat d rq k)) k) = Some (Some text) \<and>
         (\<exists>c'. reply (chat d rq k) = Inr (Chat_html c') \<and> response c' = Some text)"
  using assms by (simp add: chat_found_get chat_found_page)

theorem chat_respond_witness:
  "current_user db2 (req POST (Some 1) [(''response'', ''thanks'')]) = Some alice \<and>
   get_consultation db2 1 = Some answered \<and>
   responder_id answered = Some 2 \<and> response answered = Some ''see a specialist'' \<and>
   request_method (req POST (Some 1) [(''response'', ''thanks'')]) = POST \<and>
   map_of (form (req POST (Some 1) [(''response'', ''thanks'')])) ''response'' = Some ''thanks'' \<and>
   map_option response
     (get_consultation (db_of (chat db2 (req POST (Some 1) [(''response'', ''thanks'')]) 1)) 1)
     = Some (Some ''thanks'')"
proof -
  let ?rq = "req POST (Some 1) [(''response'', ''thanks'')]"
  have user: "current_user db2 ?rq = Some alice" by (rule current_user_db2)
  have c: "get_consultation db2 1 = Some answered" by (rule get_consultation_samples)
  have post: "request_method ?rq = POST" and posted: "map_of (form ?rq) ''response'' = Some ''thanks''"
    by (simp_all add: req_sel)
  have old: "responder_id answered = Some 2" "response answered = Some ''see a specialist''"
    by (simp_all add: answered_def)
  from chat_respond [OF user c post posted] user c post posted old show ?thesis by blast
qed

text \<open>
  C7. A login with valid credentials whose request carries a non-empty \<open>next\<close>
  argument: the view evaluates \<open>url_parse(next_page)\<close>, a name that app.py never
  binds, so the reply is the NameError and not the redirect to the preserved path.
  Without \<open>next\<close> the same login is redirected to the home page.
\<close>

theorem login_next_raises_NameError:
  "login test_lib db0
     ((req POST None [(''username'', ''alice''), (''password'', ''pa'')])
        \<lparr>path := ''/login'', args_next := Some ''/profile''\<rparr>) =
     \<lparr>db_of = db0, session_of = Some 1, flashes = [], reply = Inl (NameError ''url_parse'')\<rparr> \<and>
   login test_lib db0 (req POST None [(''username'', ''alice''), (''password'', ''pa'')]) =
     \<lparr>db_of = db0, session_of = Some 1, flashes = [],
      reply = Inr (Redirect (Url_for Index None))\<rparr>"
proof -
  let ?rq = "req POST None [(''username'', ''alice''), (''password'', ''pa'')]"
  let ?rqn = "?rq\<lparr>path := ''/login'', args_next := Some ''/profile''\<rparr>"
  have anon: "current_user db0 ?rq = None" "current_user db0 ?rqn = None"
    by (simp_all add: current_user_def req_def)
  have data: "field_data ?rq ''username'' = ''alice''" "field_data ?rq ''password'' = ''pa''"
             "field_data ?rqn ''username'' = ''alice''" "field_data ?rqn ''password'' = ''pa''"
    by (simp_all add: field_data_def req_def)
  have valid: "validate_on_submit ?rq (LoginForm test_lib ?rq)"
              "validate_on_submit ?rqn (LoginForm test_lib ?rqn)"
    by (simp_all add: validate_on_submit_def LoginForm_valid_iff data DataRequired_samples)
       (simp_all add: req_def)
  have found: "find (\<lambda>u. username u = ''alice'') (user_rows db0) = Some alice"
    by (simp add: db0_def alice_def)
  have pw: "check_password_hash test_lib (password_hash alice) ''pa''" and id: "u_id alice = 1"
    by (simp_all add: test_lib_def alice_def)
  have nxt: "args_next ?rq = None" "args_next ?rqn = Some ''/profile''"
    by (simp_all add: req_def)
  have "login test_lib db0 ?rqn =
      \<lparr>db_of = db0, session_of = Some 1, flashes = [], reply = Inl (NameError ''url_parse'')\<rparr>"
    using login_valid [where d = db0 and rq = ?rqn and user = alice and L = test_lib]
      anon(2) valid(2) found pw
    by (simp add: data nxt id next_target_given)
  moreover have "login test_lib db0 ?rq =
      \<lparr>db_of = db0, session_of = Some 1, flashes = [],
       reply = Inr (Redirect (Url_for Index None))\<rparr>"
    using login_valid [where d = db0 and rq = ?rq and user = alice and L = test_lib]
      anon(1) valid(1) found pw
    by (simp add: data nxt id next_target_absent)
  ultimately show ?thesis by (rule conjI)
qed

text \<open>
  C8. A registration whose role is neither \<open>military\<close> nor \<open>doctor\<close>: the form only
  requires the role not to be blank, so the account is stored with the role as posted.
\<close>

theorem register_role_unchecked:
  "register test_lib db0 (req POST None (reg_form ''eve'' ''e@x.com'' ''pe'' ''pe'' ''admin'')) =
     \<lparr>db_of = \<lparr>user_rows = [alice, bob, carol,
                  \<lparr>u_id = 4, username = ''eve'', email = ''e@x.com'',
                   password_hash = ''pbkdf2:sha256$pe'', role = ''admin''\<rparr>],
               consultation_rows = [need_help]\<rparr>,
      session_of = None,
      flashes = [''Congratulations, you are now a registered user!''],
      reply = Inr (Redirect (Url_for Login None))\<rparr>"
proof -
  let ?rq = "req POST None (reg_form ''eve'' ''e@x.com'' ''pe'' ''pe'' ''admin'')"
  have anon: "current_user db0 ?rq = None" by (rule current_user_anonymous)
  have rows: "user_rows db0 = [alice, bob, carol]"
    by (simp add: db0_def)
  have free: "\<not> (\<exists>u\<in>set (user_rows db0). username u = ''eve'')"
             "\<not> (\<exists>u\<in>set (user_rows db0). email u = ''e@x.com'')"
    by (simp_all add: rows alice_def bob_def carol_def)
  have ids: "map u_id (user_rows db0) = [1, 2, 3]"
    by (simp add: rows alice_def bob_def carol_def)
  have lib: "Email_ok test_lib ''e@x.com''"
            "generate_password_hash test_lib ''pe'' = ''pbkdf2:sha256$pe''"
    by (simp_all add: test_lib_def)
  have valid: "validate_on_submit ?rq (RegistrationForm test_lib db0 ?rq)"
    by (simp add: validate_on_submit_def RegistrationForm_valid_iff field_data_reg_form
          DataRequired_samples free lib req_sel)
  show ?thesis
    by (simp del: One_nat_def add: register_def anon valid Let_def respond_def
          field_data_reg_form ids lib next_id_123 req_sel)
       (simp add: db0_def)
qed




text \<open>
  C10. A POST to the chat view whose form has no \<open>response\<close> field, in an active
  session and for a stored consultation: the stored \<open>response\<close> becomes unset, whatever
  it was; the chat page is rendered and nothing is flashed.
\<close>

theorem chat_post_without_response:
  assumes "current_user d rq = Some u" and "get_consultation d k = Some c"
    and "request_method rq = POST" and "map_of (form rq) ''response'' = None"
  shows "map_option response (get_consultation (db_of (chat d rq k)) k) = Some None \<and>
         (\<exists>c'. reply (chat d rq k) = Inr (Chat_html c') \<and> response c' = None) \<and>
         flashes (chat d rq k) = []"
  using assms by (simp add: chat_found_get chat_found_page)

theorem chat_post_without_response_witness:
  "current_user db2 (req POST (Some 1) []) = Some alice \<and>
   get_consultation db2 1 = Some answered \<and>
   response answered = Some ''see a specialist'' \<and>
   request_method (req POST (Some 1) []) = POST \<and>
   map_of (form (req POST (Some 1) [])) ''response'' = None \<and>
   map_option response (get_consultation (db_of (chat db2 (req POST (Some 1) []) 1)) 1)
     = Some None"
proof -
  let ?rq = "req POST (Some 1) []"
  have user: "current_user db2 ?rq = Some alice" by (rule current_user_db2)
  have c: "get_consultation db2 1 = Some answered" by (rule get_consultation_samples)
  have post: "request_method ?rq = POST" and none: "map_of (form ?rq) ''response'' = None"
    by (simp_all add: req_sel)
  have old: "response answered = Some ''see a specialist''"
    by (simp add: answered_def)
  from chat_post_without_response [OF user c post none] user c post none old
  show ?thesis by blast
qed

end
